theory Spec2Isabelle
  imports Complex_Main
begin

section \<open>JavaScript values used by the progress pipeline\<close>

text \<open>
  A valid JavaScript \<open>Date\<close> is its \<open>getTime()\<close>: integer milliseconds since the epoch.
  The numbers the pipeline computes with are modelled exactly, as rationals; the rounding of
  IEEE doubles is not modelled. A division keeps JavaScript's results for a zero divisor.
\<close>

type_synonym date = int

datatype error = TypeError

datatype jsnum = Num rat | Infinity | NegInfinity | NaN

definition js_div :: "rat \<Rightarrow> rat \<Rightarrow> jsnum" where
  "js_div a b =
     (if b = 0 then (if a = 0 then NaN else if 0 < a then Infinity else NegInfinity)
      else Num (a / b))"

text \<open>\<open>Math.trunc\<close>, for integer quotients and for rationals: rounding towards zero.\<close>

definition trunc_div :: "int \<Rightarrow> int \<Rightarrow> int" where
  "trunc_div a b = (if 0 \<le> a then a div b else - ((- a) div b))"

definition trunc_rat :: "rat \<Rightarrow> int" where
  "trunc_rat r = (if 0 \<le> r then \<lfloor>r\<rfloor> else \<lceil>r\<rceil>)"

text \<open>
  \<open>ToNumber\<close> of an average that may still be \<open>null\<close>: in \<open>avg * levelsToDo\<close> JavaScript
  reads \<open>null\<close> as 0.
\<close>

definition js_num :: "rat option \<Rightarrow> rat" where
  "js_num v = (case v of None \<Rightarrow> 0 | Some r \<Rightarrow> r)"

section \<open>The date-fns functions the pipeline calls\<close>

text \<open>
  date-fns is a library, not part of the repository. Its functions are modelled in the UTC
  time zone (no daylight-saving shifts). \<open>differenceInHours\<close> and \<open>differenceInDays\<close> are then
  the truncated quotients of the millisecond difference. \<open>differenceInMonths\<close> is the number
  of full calendar months between the two instants: the calendar-month difference, less one
  when the last month is not complete. The adjustments later library versions make when the
  left date is one of the last days of a month are not modelled; no general theorem below
  depends on what \<open>differenceInMonths\<close> returns, and the concrete histories use the first days
  of a month. \<open>addHours\<close> truncates the amount to whole hours (date-fns 2).
\<close>

definition MS_HOUR :: int where "MS_HOUR = 3600000"
definition MS_DAY :: int where "MS_DAY = 86400000"

definition differenceInHours :: "date \<Rightarrow> date \<Rightarrow> int" where
  "differenceInHours l r = trunc_div (l - r) MS_HOUR"

definition differenceInDays :: "date \<Rightarrow> date \<Rightarrow> int" where
  "differenceInDays l r = trunc_div (l - r) MS_DAY"

text \<open>The civil date (year, month 1..12, day 1..31) of a day number counted from 1970-01-01.\<close>

definition civil :: "int \<Rightarrow> int \<times> int \<times> int" where
  "civil z =
     (let z1 = z + 719468;
          era = z1 div 146097;
          doe = z1 - era * 146097;
          yoe = (doe - doe div 1460 + doe div 36524 - doe div 146096) div 365;
          doy = doe - (365 * yoe + yoe div 4 - yoe div 100);
          mp = (5 * doy + 2) div 153;
          d = doy - (153 * mp + 2) div 5 + 1;
          m = (if mp < 10 then mp + 3 else mp - 9);
          yr = yoe + era * 400 + (if m \<le> 2 then 1 else 0)
      in (yr, m, d))"

definition calendarMonth :: "date \<Rightarrow> int" where
  "calendarMonth t = (case civil (t div MS_DAY) of (yr, m, d) \<Rightarrow> yr * 12 + m)"

definition monthOffset :: "date \<Rightarrow> int" where
  "monthOffset t = (case civil (t div MS_DAY) of (yr, m, d) \<Rightarrow> (d - 1) * MS_DAY + t mod MS_DAY)"

definition differenceInMonths :: "date \<Rightarrow> date \<Rightarrow> int" where
  "differenceInMonths l r =
     (let difference = \<bar>calendarMonth l - calendarMonth r\<bar> in
      if r < l then difference - (if monthOffset l < monthOffset r then 1 else 0)
      else if l < r then - (difference - (if monthOffset r < monthOffset l then 1 else 0))
      else 0)"

text \<open>
  The instant of midnight UTC on a civil date, as \<open>parseISO\<close> returns it for a string such as
  \<open>2021-01-01T00:00:00Z\<close>; the concrete histories below are written with it.
\<close>

definition utcDate :: "int \<Rightarrow> int \<Rightarrow> int \<Rightarrow> date" where
  "utcDate yr m d =
     (let y1 = (if m \<le> 2 then yr - 1 else yr);
          era = y1 div 400;
          yoe = y1 - era * 400;
          doy = (153 * (if 2 < m then m - 3 else m + 9) + 2) div 5 + d - 1;
          doe = yoe * 365 + yoe div 4 - yoe div 100 + doy
      in (era * 146097 + doe - 719468) * MS_DAY)"

definition addHours :: "date \<Rightarrow> rat \<Rightarrow> date" where
  "addHours d amount = d + trunc_rat amount * MS_HOUR"

text \<open>
  \<open>max\<close> of date-fns returns the latest date of an array, and an Invalid Date (\<open>None\<close>)
  for an empty one. A comparison with an Invalid Date is false.
\<close>

fun maxDates :: "date list \<Rightarrow> date option" where
  "maxDates [] = None"
| "maxDates (d # ds) = Some (fold max ds d)"

definition date_ge :: "date \<Rightarrow> date option \<Rightarrow> bool" where
  "date_ge t s = (case s of None \<Rightarrow> False | Some u \<Rightarrow> u \<le> t)"

section \<open>Data model\<close>

text \<open>
  A level progression of the API (\<open>data.level\<close>, \<open>data.unlocked_at\<close>, \<open>data.passed_at\<close>, the
  timestamps already parsed), a chart point \<open>{x, y}\<close>, and a chart series whose elements are
  points or the empty object \<open>{}\<close> that the chart draws as a gap.
\<close>

record progression =
  level :: int
  unlocked_at :: date
  passed_at :: "date option"

record 'a point =
  x :: date
  y :: 'a

datatype 'a elem = Pt 'a | Gap

definition ALPHAS :: "rat list" where "ALPHAS = [1 / 2, 1 / 4]"
definition MAX_LEVEL :: int where "MAX_LEVEL = 60"
definition GAP_MONTHS :: int where "GAP_MONTHS = 6"
definition SKIP_MONTHS :: int where "SKIP_MONTHS = 3"

text \<open>
  \<open>Array.prototype.flatMap\<close>: the callback receives the element and its index, and the
  arrays it returns are concatenated.
\<close>

definition flatMap :: "('a \<Rightarrow> nat \<Rightarrow> 'b list) \<Rightarrow> 'a list \<Rightarrow> 'b list" where
  "flatMap f xs = concat (map (\<lambda>i. f (xs ! i) i) [0..<length xs])"

section \<open>processData: building the history\<close>

text \<open>Lines 128-131: one point per level progression, at the zero-based level.\<close>

definition levelPoints :: "progression list \<Rightarrow> int point list" where
  "levelPoints levels = map (\<lambda>r. \<lparr>x = unlocked_at r, y = level r - 1\<rparr>) levels"

text \<open>
  Lines 132-136. \<open>startDateStr\<close> is the parsed content of the start-date field, \<open>None\<close> for the
  empty string. Reading \<open>history[0].x\<close> of an empty history throws a TypeError.
\<close>

definition startDate :: "date option \<Rightarrow> int point list \<Rightarrow> error + date option" where
  "startDate startDateStr history =
     (case history of
        [] \<Rightarrow> Inl TypeError
      | h0 # _ \<Rightarrow>
          (case startDateStr of
             Some d \<Rightarrow> Inr (maxDates [d, x h0])
           | None \<Rightarrow> Inr (Some (x h0))))"

definition applyStart :: "date option \<Rightarrow> int point list \<Rightarrow> error + int point list" where
  "applyStart startDateStr history =
     (case startDate startDateStr history of
        Inl e \<Rightarrow> Inl e
      | Inr s \<Rightarrow> Inr (filter (\<lambda>p. date_ge (x p) s) history))"

text \<open>Lines 137-143: the completion point of the last progression, when it was passed.\<close>

definition pushPassed :: "progression list \<Rightarrow> int point list \<Rightarrow> int point list" where
  "pushPassed levels history =
     (let lst = List.last levels in
      case passed_at lst of
        Some t \<Rightarrow> history @ [\<lparr>x = t, y = level lst\<rparr>]
      | None \<Rightarrow> history)"

definition buildHistory :: "progression list \<Rightarrow> date option \<Rightarrow> error + int point list" where
  "buildHistory levels startDateStr =
     (case applyStart startDateStr (levelPoints levels) of
        Inl e \<Rightarrow> Inl e
      | Inr history \<Rightarrow> Inr (pushPassed levels history))"

section \<open>processData: gaps in the history\<close>

text \<open>
  Lines 147-153. The callback reads \<open>history[i - 1]\<close> from the array being mapped: the
  variable is reassigned only after \<open>flatMap\<close> has returned.
\<close>

definition insertGaps :: "int point list \<Rightarrow> int point elem list" where
  "insertGaps history =
     flatMap (\<lambda>item i.
       if i = 0 then [Pt item]
       else let prev = history ! (i - 1) in
         if y item < y prev then [Gap, Pt item]
         else if GAP_MONTHS \<le> differenceInMonths (x item) (x prev) then [Gap, Pt item]
         else [Pt item]) history"

text \<open>
  The segmenter as the specification words it: the first element as it is, then a scan of the
  consecutive pairs that puts a gap before \<open>cur\<close> on a level regression or a long pause.
\<close>

definition isBreak :: "int point \<Rightarrow> int point \<Rightarrow> bool" where
  "isBreak prev cur \<longleftrightarrow>
     y cur < y prev \<or> GAP_MONTHS \<le> differenceInMonths (x cur) (x prev)"

fun scanPairs :: "int point \<Rightarrow> int point list \<Rightarrow> int point elem list" where
  "scanPairs prev [] = []"
| "scanPairs prev (cur # rest) =
     (if isBreak prev cur then [Gap, Pt cur] else [Pt cur]) @ scanPairs cur rest"

fun segmenterSpec :: "int point list \<Rightarrow> int point elem list" where
  "segmenterSpec [] = []"
| "segmenterSpec (first # rest) = Pt first # scanPairs first rest"

text \<open>The real points of a series, in order: the series with its gap markers removed.\<close>

fun realPoints :: "'a elem list \<Rightarrow> 'a list" where
  "realPoints [] = []"
| "realPoints (Pt p # es) = p # realPoints es"
| "realPoints (Gap # es) = realPoints es"

text \<open>
  A series whose gap markers each stand between two real points: it does not begin or end
  with a gap, and no gap follows another.
\<close>

fun gapsBetweenPoints :: "'a elem list \<Rightarrow> bool" where
  "gapsBetweenPoints [] = True"
| "gapsBetweenPoints (Gap # es) = False"
| "gapsBetweenPoints [Pt p] = True"
| "gapsBetweenPoints (Pt p # Gap # es) = (es \<noteq> [] \<and> gapsBetweenPoints es)"
| "gapsBetweenPoints (Pt p # Pt q # es) = gapsBetweenPoints (Pt q # es)"

section \<open>processData: the speed series\<close>

text \<open>
  Lines 155-165 and \<open>avgDate\<close> (lines 195-197). The callback now reads the gapped history.
  \<open>new Date(n)\<close> truncates a fractional \<open>n\<close>. The source compares \<open>item.y\<close> with the literal 3;
  \<open>speedAt\<close> takes that bound as a parameter and \<open>speed\<close> is the source's function.
\<close>

definition avgDate :: "date \<Rightarrow> date \<Rightarrow> date" where
  "avgDate a b = trunc_div (a + b) 2"

definition paceSample :: "int point \<Rightarrow> int point \<Rightarrow> jsnum point" where
  "paceSample prev item =
     (let dx_months = of_int (differenceInDays (x item) (x prev)) / 30;
          dy_levels = y item - y prev;
          avg_x = avgDate (x prev) (x item)
      in \<lparr>x = avg_x, y = js_div (of_int dy_levels) dx_months\<rparr>)"

definition speedAt :: "int \<Rightarrow> int point elem list \<Rightarrow> jsnum point elem list" where
  "speedAt lowLevel history =
     flatMap (\<lambda>item i.
       if i = 0 then []
       else case item of
         Gap \<Rightarrow> [Gap]
       | Pt cur \<Rightarrow>
           if y cur < lowLevel then []
           else (case history ! (i - 1) of
                   Gap \<Rightarrow> []
                 | Pt prev \<Rightarrow> [Pt (paceSample prev cur)])) history"

definition speed :: "int point elem list \<Rightarrow> jsnum point elem list" where
  "speed = speedAt 3"

section \<open>computeForecasts\<close>

text \<open>
  Lines 169-193. \<open>avgHours\<close> starts as \<open>[null, null]\<close>. The callback of \<open>forEach\<close> tests
  \<open>!old\<close>, which holds for \<open>null\<close> and for the number 0. Both \<open>cur\<close> and \<open>prev\<close> are Date
  objects, which are always truthy, so the test of the loop is \<open>months < SKIP_MONTHS\<close>.
\<close>

definition smooth :: "rat \<Rightarrow> nat \<Rightarrow> rat option \<Rightarrow> rat option" where
  "smooth hours i old =
     (case old of
        None \<Rightarrow> Some hours
      | Some v \<Rightarrow>
          if v = 0 then Some hours
          else let alpha = ALPHAS ! i in Some (alpha * hours + (1 - alpha) * v))"

definition updateAverages :: "rat \<Rightarrow> rat option list \<Rightarrow> rat option list" where
  "updateAverages hours avgHours =
     map (\<lambda>i. smooth hours i (avgHours ! i)) [0..<length avgHours]"

definition pairStep :: "int point \<Rightarrow> int point \<Rightarrow> rat option list \<Rightarrow> rat option list" where
  "pairStep prevItem curItem avgHours =
     (let cur = x curItem;
          prev = x prevItem;
          hours = differenceInHours cur prev;
          months = differenceInMonths cur prev
      in if months < SKIP_MONTHS then updateAverages (of_int hours) avgHours else avgHours)"

definition averages :: "int point list \<Rightarrow> rat option list" where
  "averages history =
     fold (\<lambda>i avgHours. pairStep (history ! (i - 1)) (history ! i) avgHours)
       [1..<length history] [None, None]"

text \<open>Reading \<open>last.y\<close> of an empty history throws a TypeError.\<close>

definition forecastLine :: "int point \<Rightarrow> rat option \<Rightarrow> int point list" where
  "forecastLine lst avg =
     (let levelsToDo = MAX_LEVEL - y lst in
      [\<lparr>x = x lst, y = y lst\<rparr>,
       \<lparr>x = addHours (x lst) (js_num avg * of_int levelsToDo), y = MAX_LEVEL\<rparr>])"

definition computeForecasts :: "int point list \<Rightarrow> error + int point list list" where
  "computeForecasts history =
     (if history = [] then Inl TypeError
      else Inr (map (forecastLine (List.last history)) (averages history)))"

section \<open>processData\<close>

text \<open>What \<open>processData\<close> hands to \<open>makeChart\<close>, or the error it throws.\<close>

record chartData =
  chartHistory :: "int point elem list"
  chartForecasts :: "int point list list"
  chartSpeed :: "jsnum point elem list"

definition processData :: "progression list \<Rightarrow> date option \<Rightarrow> error + chartData" where
  "processData levels startDateStr =
     (case buildHistory levels startDateStr of
        Inl e \<Rightarrow> Inl e
      | Inr history \<Rightarrow>
          (case computeForecasts history of
             Inl e \<Rightarrow> Inl e
           | Inr forecasts \<Rightarrow>
               (let gapped = insertGaps history in
                Inr \<lparr>chartHistory = gapped, chartForecasts = forecasts,
                     chartSpeed = speed gapped\<rparr>)))"

section \<open>The gap segmenter\<close>

lemma concat_map_upt_first:
  assumes "0 < n"
  shows "concat (map (\<lambda>i. if i = 0 then a i else b i) [0..<n]) = a 0 @ concat (map b [Suc 0..<n])"
proof -
  have up: "[0..<n] = 0 # [Suc 0..<n]"
    using assms by (rule upt_conv_Cons)
  have tl: "map (\<lambda>i. if i = 0 then a i else b i) [Suc 0..<n] = map b [Suc 0..<n]"
    by (rule map_cong[OF refl]) auto
  show ?thesis
    by (subst up) (simp only: list.map concat.simps tl, simp)
qed

lemma scanPairs_index:
  "n < length h \<Longrightarrow>
   concat (map (\<lambda>i. if isBreak (h ! (i - 1)) (h ! i) then [Gap, Pt (h ! i)] else [Pt (h ! i)])
     [Suc n..<length h]) = scanPairs (h ! n) (drop (Suc n) h)"
proof (induction "length h - Suc n" arbitrary: n)
  case 0
  then show ?case by simp
next
  case (Suc k)
  then have lt: "Suc n < length h" by linarith
  have k: "k = length h - Suc (Suc n)" using Suc.hyps(2) by linarith
  have up: "[Suc n..<length h] = Suc n # [Suc (Suc n)..<length h]"
    using lt by (simp add: upt_conv_Cons)
  have dr: "drop (Suc n) h = h ! Suc n # drop (Suc (Suc n)) h"
    using lt by (simp add: Cons_nth_drop_Suc)
  show ?case
    using Suc.hyps(1)[OF k lt] by (simp add: up dr)
qed

lemma insertGaps_callback:
  "insertGaps h =
   concat (map (\<lambda>i. if i = 0 then [Pt (h ! i)]
                     else if isBreak (h ! (i - 1)) (h ! i) then [Gap, Pt (h ! i)] else [Pt (h ! i)])
     [0..<length h])"
  unfolding insertGaps_def flatMap_def isBreak_def Let_def
  by (rule arg_cong[where f = concat], rule map_cong) auto

lemma insertGaps_Nil: "insertGaps [] = []"
  by (simp add: insertGaps_def flatMap_def)

lemma insertGaps_Cons: "insertGaps (p # ps) = Pt p # scanPairs p ps"
proof -
  have "insertGaps (p # ps) = [Pt ((p # ps) ! 0)] @ scanPairs ((p # ps) ! 0) (drop (Suc 0) (p # ps))"
    unfolding insertGaps_callback
    by (subst concat_map_upt_first, simp, subst scanPairs_index, simp, rule refl)
  then show ?thesis by simp
qed

lemma realPoints_scanPairs: "realPoints (scanPairs p ps) = ps"
  by (induction ps arbitrary: p) simp_all

lemma scanPairs_has_gap:
  "Gap \<in> set (scanPairs a ps) \<longleftrightarrow> (\<exists>i. i < length ps \<and> isBreak ((a # ps) ! i) (ps ! i))"
proof (induction ps arbitrary: a)
  case Nil
  then show ?case by simp
next
  case (Cons c cs)
  have "(\<exists>i. i < length (c # cs) \<and> isBreak ((a # c # cs) ! i) ((c # cs) ! i)) \<longleftrightarrow>
        isBreak a c \<or> (\<exists>i. i < length cs \<and> isBreak ((c # cs) ! i) (cs ! i))"
    (is "?L \<longleftrightarrow> ?R")
  proof
    assume ?L
    then obtain i where i: "i < length (c # cs)" "isBreak ((a # c # cs) ! i) ((c # cs) ! i)"
      by blast
    show ?R
    proof (cases i)
      case 0
      with i show ?thesis by simp
    next
      case (Suc j)
      with i show ?thesis by auto
    qed
  next
    assume ?R
    then show ?L
    proof
      assume "isBreak a c"
      then have "0 < length (c # cs) \<and> isBreak ((a # c # cs) ! 0) ((c # cs) ! 0)" by simp
      then show ?L by blast
    next
      assume "\<exists>i. i < length cs \<and> isBreak ((c # cs) ! i) (cs ! i)"
      then obtain i where "i < length cs" "isBreak ((c # cs) ! i) (cs ! i)" by blast
      then have "Suc i < length (c # cs) \<and> isBreak ((a # c # cs) ! Suc i) ((c # cs) ! Suc i)"
        by simp
      then show ?L by blast
    qed
  qed
  then show ?case using Cons.IH[of c] by auto
qed

lemma gapsBetweenPoints_scanPairs: "gapsBetweenPoints (Pt a # scanPairs a ps)"
  by (induction ps arbitrary: a) simp_all

lemma gapsBetweenPoints_decomp:
  "gapsBetweenPoints s \<Longrightarrow> s = us @ Gap # vs \<Longrightarrow>
   (\<exists>us' p. us = us' @ [Pt p]) \<and> (\<exists>q vs'. vs = Pt q # vs')"
proof (induction s arbitrary: us rule: gapsBetweenPoints.induct)
  case 1
  then show ?case by simp
next
  case (2 es us)
  from "2.prems"(1) show ?case by simp
next
  case (3 p us)
  from "3.prems"(2) show ?case by (cases us) auto
next
  case (4 p es us)
  from "4.prems"(1) have ne: "es \<noteq> []" and g: "gapsBetweenPoints es" by simp_all
  note eq = "4.prems"(2)
  show ?case
  proof (cases us)
    case Nil
    with eq show ?thesis by simp
  next
    case (Cons u us1)
    with eq have u: "u = Pt p" and eq1: "Gap # es = us1 @ Gap # vs" by simp_all
    show ?thesis
    proof (cases us1)
      case Nil
      with eq1 have "vs = es" by simp
      moreover from g ne obtain q vs' where "es = Pt q # vs'"
        by (cases es rule: gapsBetweenPoints.cases) auto
      moreover have "us = [] @ [Pt p]" using Cons u Nil by simp
      ultimately show ?thesis by blast
    next
      case (Cons u2 us2)
      with eq1 have eq2: "es = us2 @ Gap # vs" by simp
      from "4.IH"[OF g eq2] obtain us' p' where "us2 = us' @ [Pt p']"
        and vs: "\<exists>q vs'. vs = Pt q # vs'" by blast
      then have "us = (u # u2 # us') @ [Pt p']" using Cons \<open>us = u # us1\<close> by simp
      with vs show ?thesis by blast
    qed
  qed
next
  case (5 p q es us)
  from "5.prems"(1) have g: "gapsBetweenPoints (Pt q # es)" by simp
  from "5.prems"(2) obtain us1 where us: "us = Pt p # us1" and eq1: "Pt q # es = us1 @ Gap # vs"
    by (cases us) auto
  from "5.IH"[OF g eq1] obtain us' p' where "us1 = us' @ [Pt p']"
    and vs: "\<exists>q vs'. vs = Pt q # vs'" by blast
  then have "us = (Pt p # us') @ [Pt p']" using us by simp
  with vs show ?case by blast
qed

text \<open>
  Claim C3. For every point sequence, the output of the gap segmenter with its gap markers
  removed is the input sequence itself: the segmenter only inserts markers.
\<close>

theorem insertGaps_realPoints: "realPoints (insertGaps h) = h"
  by (cases h) (simp_all add: insertGaps_Nil insertGaps_Cons realPoints_scanPairs)

text \<open>
  Claim C4. The gap segmenter of the source is the scan the specification describes: the first
  element is emitted as it is, and every later element \<open>cur\<close> is preceded by a gap marker
  exactly when \<open>cur.y < prev.y\<close> or at least \<open>GAP_MONTHS\<close> (6) whole months lie between
  \<open>prev.x\<close> and \<open>cur.x\<close>. Consequently a history whose levels never decrease and whose
  consecutive points are less than 6 months apart gets no gap marker.
\<close>

theorem insertGaps_segmenterSpec:
  "insertGaps h = segmenterSpec h \<and>
   ((\<forall>i. Suc i < length h \<longrightarrow>
        y (h ! i) \<le> y (h ! Suc i) \<and>
        differenceInMonths (x (h ! Suc i)) (x (h ! i)) < GAP_MONTHS)
    \<longrightarrow> Gap \<notin> set (insertGaps h))"
proof (cases h)
  case Nil
  then show ?thesis by (simp add: insertGaps_Nil)
next
  case (Cons a ps)
  have "Gap \<notin> set (scanPairs a ps)"
    if "\<forall>i. Suc i < length h \<longrightarrow>
          y (h ! i) \<le> y (h ! Suc i) \<and>
          differenceInMonths (x (h ! Suc i)) (x (h ! i)) < GAP_MONTHS"
  proof -
    have "\<not> isBreak ((a # ps) ! i) (ps ! i)" if "i < length ps" for i
      using \<open>\<forall>i. Suc i < length h \<longrightarrow> _\<close>[rule_format, of i] that Cons
      by (simp add: isBreak_def)
    then show ?thesis by (simp add: scanPairs_has_gap)
  qed
  with Cons show ?thesis by (simp add: insertGaps_Cons)
qed

text \<open>The three-point history of January to March 2021 meets the hypothesis of C4.\<close>

theorem insertGaps_segmenterSpec_witness:
  "y \<lparr>x = utcDate 2021 1 1, y = 0::int\<rparr> \<le> y \<lparr>x = utcDate 2021 2 1, y = 1::int\<rparr>
   \<and> differenceInMonths (utcDate 2021 2 1) (utcDate 2021 1 1) < GAP_MONTHS
   \<and> y \<lparr>x = utcDate 2021 2 1, y = 1::int\<rparr> \<le> y \<lparr>x = utcDate 2021 3 1, y = 2::int\<rparr>
   \<and> differenceInMonths (utcDate 2021 3 1) (utcDate 2021 2 1) < GAP_MONTHS
   \<and> insertGaps [\<lparr>x = utcDate 2021 1 1, y = 0\<rparr>, \<lparr>x = utcDate 2021 2 1, y = 1\<rparr>,
                  \<lparr>x = utcDate 2021 3 1, y = 2\<rparr>]
       = [Pt \<lparr>x = utcDate 2021 1 1, y = 0\<rparr>, Pt \<lparr>x = utcDate 2021 2 1, y = 1\<rparr>,
          Pt \<lparr>x = utcDate 2021 3 1, y = 2\<rparr>]
   \<and> Gap \<notin> set (insertGaps [\<lparr>x = utcDate 2021 1 1, y = 0\<rparr>, \<lparr>x = utcDate 2021 2 1, y = 1\<rparr>,
                  \<lparr>x = utcDate 2021 3 1, y = 2\<rparr>])"
proof -
  let ?h = "[\<lparr>x = utcDate 2021 1 1, y = 0::int\<rparr>, \<lparr>x = utcDate 2021 2 1, y = 1\<rparr>,
             \<lparr>x = utcDate 2021 3 1, y = 2\<rparr>]"
  have m1: "differenceInMonths (utcDate 2021 2 1) (utcDate 2021 1 1) < GAP_MONTHS" by code_simp
  have m2: "differenceInMonths (utcDate 2021 3 1) (utcDate 2021 2 1) < GAP_MONTHS" by code_simp
  have hyp: "\<forall>i. Suc i < length ?h \<longrightarrow>
        y (?h ! i) \<le> y (?h ! Suc i) \<and>
        differenceInMonths (x (?h ! Suc i)) (x (?h ! i)) < GAP_MONTHS"
  proof (intro allI impI)
    fix i assume "Suc i < length ?h"
    then have "i = 0 \<or> i = 1" by auto
    then show "y (?h ! i) \<le> y (?h ! Suc i) \<and>
        differenceInMonths (x (?h ! Suc i)) (x (?h ! i)) < GAP_MONTHS"
      using m1 m2 by auto
  qed
  have spec: "segmenterSpec ?h = [Pt \<lparr>x = utcDate 2021 1 1, y = 0\<rparr>, Pt \<lparr>x = utcDate 2021 2 1, y = 1\<rparr>,
          Pt \<lparr>x = utcDate 2021 3 1, y = 2\<rparr>]"
    using m1 m2 by (simp add: isBreak_def)
  from insertGaps_segmenterSpec[of ?h] hyp spec m1 m2 show ?thesis by simp
qed

text \<open>
  Claim C7, as amended. In the gap-segmented history series every gap marker stands between
  two real points: the series does not begin or end with a gap marker and no two gap markers
  are adjacent. (The speed series does not have this property, see the counterexample.)
\<close>

theorem insertGaps_gapsBetweenPoints:
  "gapsBetweenPoints (insertGaps h) \<and>
   (\<forall>us vs. insertGaps h = us @ Gap # vs \<longrightarrow>
      (\<exists>us' p. us = us' @ [Pt p]) \<and> (\<exists>q vs'. vs = Pt q # vs'))"
proof -
  have g: "gapsBetweenPoints (insertGaps h)"
    by (cases h) (simp_all add: insertGaps_Nil insertGaps_Cons gapsBetweenPoints_scanPairs)
  then show ?thesis using gapsBetweenPoints_decomp by blast
qed

text \<open>A restart from level 5 to level 1: the gap marker has a real point on either side.\<close>

theorem insertGaps_gapsBetweenPoints_witness:
  "insertGaps [\<lparr>x = utcDate 2021 1 1, y = 4\<rparr>, \<lparr>x = utcDate 2021 2 1, y = 0\<rparr>]
     = [Pt \<lparr>x = utcDate 2021 1 1, y = 4\<rparr>] @ Gap # [Pt \<lparr>x = utcDate 2021 2 1, y = 0\<rparr>]
   \<and> gapsBetweenPoints (insertGaps [\<lparr>x = utcDate 2021 1 1, y = 4\<rparr>, \<lparr>x = utcDate 2021 2 1, y = 0\<rparr>])
   \<and> (\<exists>us' p. [Pt \<lparr>x = utcDate 2021 1 1, y = 4::int\<rparr>] = us' @ [Pt p])
   \<and> (\<exists>q vs'. [Pt \<lparr>x = utcDate 2021 2 1, y = 0::int\<rparr>] = Pt q # vs')"
proof -
  let ?h = "[\<lparr>x = utcDate 2021 1 1, y = 4::int\<rparr>, \<lparr>x = utcDate 2021 2 1, y = 0\<rparr>]"
  have eq: "insertGaps ?h
     = [Pt \<lparr>x = utcDate 2021 1 1, y = 4\<rparr>] @ Gap # [Pt \<lparr>x = utcDate 2021 2 1, y = 0\<rparr>]"
    by (simp add: insertGaps_Cons isBreak_def)
  from insertGaps_gapsBetweenPoints[of ?h] eq show ?thesis by blast
qed

text \<open>
  Counterexample to C7 as stated. After two resets in a row (levels 6, 5, 4) the speed series
  is two adjacent gap markers, the first of them at the head of the series: each gap of the
  history is propagated, and the point after a gap yields no sample.
\<close>

theorem speed_gaps_counterexample:
  "speed (insertGaps [\<lparr>x = utcDate 2021 1 1, y = 5\<rparr>, \<lparr>x = utcDate 2021 2 1, y = 4\<rparr>,
                      \<lparr>x = utcDate 2021 3 1, y = 3\<rparr>]) = [Gap, Gap]
   \<and> \<not> gapsBetweenPoints (speed (insertGaps [\<lparr>x = utcDate 2021 1 1, y = 5\<rparr>,
        \<lparr>x = utcDate 2021 2 1, y = 4\<rparr>, \<lparr>x = utcDate 2021 3 1, y = 3\<rparr>]))"
proof -
  have "speed (insertGaps [\<lparr>x = utcDate 2021 1 1, y = 5\<rparr>, \<lparr>x = utcDate 2021 2 1, y = 4\<rparr>,
                      \<lparr>x = utcDate 2021 3 1, y = 3\<rparr>]) = [Gap, Gap]"
    by code_simp
  then show ?thesis by simp
qed

section \<open>The speed series\<close>

lemma set_flatMap: "set (flatMap f xs) = (\<Union>i\<in>{..<length xs}. set (f (xs ! i) i))"
  by (auto simp: flatMap_def)

text \<open>
  Claim C5, as amended. Every numeric sample of the speed series is computed from a
  consecutive pair \<open>(prev, cur)\<close> of the gapped history in which neither element is a gap
  marker and \<open>cur\<close> has a level index of at least 3. The level of \<open>prev\<close> is not tested.
\<close>

theorem speed_sample_pair:
  "Pt s \<in> set (speed h) \<Longrightarrow>
   \<exists>i p c. 0 < i \<and> i < length h \<and> h ! (i - 1) = Pt p \<and> h ! i = Pt c \<and> 3 \<le> y c \<and>
           s = paceSample p c"
proof -
  assume "Pt s \<in> set (speed h)"
  then obtain i where i: "i < length h" and
    mem: "Pt s \<in> set (if i = 0 then []
       else case h ! i of
         Gap \<Rightarrow> [Gap]
       | Pt cur \<Rightarrow>
           if y cur < 3 then []
           else (case h ! (i - 1) of
                   Gap \<Rightarrow> []
                 | Pt prev \<Rightarrow> [Pt (paceSample prev cur)]))"
    unfolding speed_def speedAt_def set_flatMap by blast
  from mem have pos: "0 < i" by (cases "i = 0") simp_all
  from mem pos obtain c where c: "h ! i = Pt c" by (cases "h ! i") simp_all
  from mem pos c have yc: "3 \<le> y c" by (cases "y c < 3") simp_all
  from mem pos c yc obtain p where p: "h ! (i - 1) = Pt p" by (cases "h ! (i - 1)") simp_all
  from mem pos c yc p have "s = paceSample p c" by simp
  with i pos c yc p show ?thesis by blast
qed

text \<open>The sample of the pair of levels 4 and 5 (March to April 2021) has such a source.\<close>

theorem speed_sample_pair_witness:
  "Pt \<lparr>x = avgDate (utcDate 2021 3 1) (utcDate 2021 4 1), y = Num (30 / 31)\<rparr>
     \<in> set (speed [Pt \<lparr>x = utcDate 2021 3 1, y = 3\<rparr>, Pt \<lparr>x = utcDate 2021 4 1, y = 4\<rparr>])
   \<and> (\<exists>i p c. 0 < i \<and> i < length [Pt \<lparr>x = utcDate 2021 3 1, y = 3::int\<rparr>, Pt \<lparr>x = utcDate 2021 4 1, y = 4\<rparr>]
          \<and> [Pt \<lparr>x = utcDate 2021 3 1, y = 3\<rparr>, Pt \<lparr>x = utcDate 2021 4 1, y = 4\<rparr>] ! (i - 1) = Pt p
          \<and> [Pt \<lparr>x = utcDate 2021 3 1, y = 3\<rparr>, Pt \<lparr>x = utcDate 2021 4 1, y = 4\<rparr>] ! i = Pt c
          \<and> 3 \<le> y c
          \<and> \<lparr>x = avgDate (utcDate 2021 3 1) (utcDate 2021 4 1), y = Num (30 / 31)\<rparr> = paceSample p c)"
proof -
  have ev: "speed [Pt \<lparr>x = utcDate 2021 3 1, y = 3\<rparr>, Pt \<lparr>x = utcDate 2021 4 1, y = 4\<rparr>]
      = [Pt \<lparr>x = avgDate (utcDate 2021 3 1) (utcDate 2021 4 1), y = Num (30 / 31)\<rparr>]"
    by code_simp
  then have mem: "Pt \<lparr>x = avgDate (utcDate 2021 3 1) (utcDate 2021 4 1), y = Num (30 / 31)\<rparr>
     \<in> set (speed [Pt \<lparr>x = utcDate 2021 3 1, y = 3\<rparr>, Pt \<lparr>x = utcDate 2021 4 1, y = 4\<rparr>])"
    by simp
  from speed_sample_pair[OF mem] mem show ?thesis by simp
qed

text \<open>
  Counterexample to C5 as stated. The history of level indices 2 and 3 gets no gap marker, and
  its speed series holds one numeric sample, computed from the only pair there is; the first
  element of that pair has level index 2, below 3.
\<close>

theorem speed_low_prev_counterexample:
  "insertGaps [\<lparr>x = utcDate 2021 1 1, y = 2\<rparr>, \<lparr>x = utcDate 2021 2 1, y = 3\<rparr>]
     = [Pt \<lparr>x = utcDate 2021 1 1, y = 2\<rparr>, Pt \<lparr>x = utcDate 2021 2 1, y = 3\<rparr>]
   \<and> speed (insertGaps [\<lparr>x = utcDate 2021 1 1, y = 2\<rparr>, \<lparr>x = utcDate 2021 2 1, y = 3\<rparr>])
     = [Pt (paceSample \<lparr>x = utcDate 2021 1 1, y = 2\<rparr> \<lparr>x = utcDate 2021 2 1, y = 3\<rparr>)]
   \<and> y \<lparr>x = utcDate 2021 1 1, y = 2::int\<rparr> < 3
   \<and> \<not> (\<forall>s. Pt s \<in> set (speed (insertGaps
              [\<lparr>x = utcDate 2021 1 1, y = 2\<rparr>, \<lparr>x = utcDate 2021 2 1, y = 3\<rparr>])) \<longrightarrow>
          (\<exists>i p c. 0 < i
             \<and> i < length (insertGaps [\<lparr>x = utcDate 2021 1 1, y = 2\<rparr>, \<lparr>x = utcDate 2021 2 1, y = 3\<rparr>])
             \<and> insertGaps [\<lparr>x = utcDate 2021 1 1, y = 2\<rparr>, \<lparr>x = utcDate 2021 2 1, y = 3\<rparr>] ! (i - 1) = Pt p
             \<and> insertGaps [\<lparr>x = utcDate 2021 1 1, y = 2\<rparr>, \<lparr>x = utcDate 2021 2 1, y = 3\<rparr>] ! i = Pt c
             \<and> 3 \<le> y p \<and> 3 \<le> y c \<and> s = paceSample p c))"
proof -
  let ?p = "\<lparr>x = utcDate 2021 1 1, y = 2::int\<rparr>"
  let ?c = "\<lparr>x = utcDate 2021 2 1, y = 3::int\<rparr>"
  have ig: "insertGaps [?p, ?c] = [Pt ?p, Pt ?c]" by code_simp
  have sp: "speed [Pt ?p, Pt ?c] = [Pt (paceSample ?p ?c)]" by code_simp
  have neg: "\<not> (\<forall>s. Pt s \<in> set [Pt (paceSample ?p ?c)] \<longrightarrow>
          (\<exists>i p c. 0 < i \<and> i < length [Pt ?p, Pt ?c] \<and> [Pt ?p, Pt ?c] ! (i - 1) = Pt p
             \<and> [Pt ?p, Pt ?c] ! i = Pt c \<and> 3 \<le> y p \<and> 3 \<le> y c \<and> s = paceSample p c))"
  proof
    assume "\<forall>s. Pt s \<in> set [Pt (paceSample ?p ?c)] \<longrightarrow>
          (\<exists>i p c. 0 < i \<and> i < length [Pt ?p, Pt ?c] \<and> [Pt ?p, Pt ?c] ! (i - 1) = Pt p
             \<and> [Pt ?p, Pt ?c] ! i = Pt c \<and> 3 \<le> y p \<and> 3 \<le> y c \<and> s = paceSample p c)"
    then obtain i p where i: "0 < i" "i < length [Pt ?p, Pt ?c]"
      and p: "[Pt ?p, Pt ?c] ! (i - 1) = Pt p" and yp: "3 \<le> y p"
      by auto
    from i have "i = 1" by simp
    with p have "p = ?p" by simp
    with yp show False by simp
  qed
  show ?thesis unfolding ig sp using neg by simp
qed

text \<open>
  Claim C8, as amended. For the history of 1 January, 1 February and 1 March at level indices
  0, 1 and 2, with the low-level bound taken as 0, the speed series holds exactly two samples,
  at the midpoints of the two intervals. The rate of a sample is one level over days / 30
  months: 30/31 (about 0.97) for January and 30/28 (about 1.07) for February, or 30/29 (about
  1.03) for the February of a leap year. With the bound 3 of the source the series is empty.
\<close>

theorem speedAt_zero_january_to_march:
  "speedAt 0 (insertGaps [\<lparr>x = utcDate 2021 1 1, y = 0\<rparr>, \<lparr>x = utcDate 2021 2 1, y = 1\<rparr>,
                          \<lparr>x = utcDate 2021 3 1, y = 2\<rparr>])
     = [Pt \<lparr>x = utcDate 2021 1 16 + 12 * MS_HOUR, y = Num (30 / 31)\<rparr>,
        Pt \<lparr>x = utcDate 2021 2 15, y = Num (30 / 28)\<rparr>]
   \<and> speedAt 0 (insertGaps [\<lparr>x = utcDate 2024 1 1, y = 0\<rparr>, \<lparr>x = utcDate 2024 2 1, y = 1\<rparr>,
                          \<lparr>x = utcDate 2024 3 1, y = 2\<rparr>])
     = [Pt \<lparr>x = utcDate 2024 1 16 + 12 * MS_HOUR, y = Num (30 / 31)\<rparr>,
        Pt \<lparr>x = utcDate 2024 2 15 + 12 * MS_HOUR, y = Num (30 / 29)\<rparr>]
   \<and> avgDate (utcDate 2021 1 1) (utcDate 2021 2 1) = utcDate 2021 1 16 + 12 * MS_HOUR
   \<and> avgDate (utcDate 2021 2 1) (utcDate 2021 3 1) = utcDate 2021 2 15
   \<and> avgDate (utcDate 2024 2 1) (utcDate 2024 3 1) = utcDate 2024 2 15 + 12 * MS_HOUR
   \<and> speed (insertGaps [\<lparr>x = utcDate 2021 1 1, y = 0\<rparr>, \<lparr>x = utcDate 2021 2 1, y = 1\<rparr>,
                          \<lparr>x = utcDate 2021 3 1, y = 2\<rparr>]) = []"
  by code_simp

text \<open>
  Counterexample to C8 as stated. In 2021 the two rates are 30/31 and 15/14; they differ from
  1.03 by more than 0.06 and 0.04. The first rate is 30/31 in every year.
\<close>

theorem speedAt_zero_rate_counterexample:
  "map (\<lambda>e. case e of Pt s \<Rightarrow> y s | Gap \<Rightarrow> NaN)
     (speedAt 0 (insertGaps [\<lparr>x = utcDate 2021 1 1, y = 0\<rparr>, \<lparr>x = utcDate 2021 2 1, y = 1\<rparr>,
                             \<lparr>x = utcDate 2021 3 1, y = 2\<rparr>]))
     = [Num (30 / 31), Num (15 / 14)]
   \<and> (3 / 50 :: rat) < \<bar>30 / 31 - 103 / 100\<bar>
   \<and> (1 / 25 :: rat) < \<bar>15 / 14 - 103 / 100\<bar>"
  by code_simp

section \<open>The history builder\<close>

lemma levelPoints_Cons:
  "levelPoints (r # rs) = \<lparr>x = unlocked_at r, y = level r - 1\<rparr> # levelPoints rs"
  by (simp add: levelPoints_def)

lemma startDate_Some:
  "levels \<noteq> [] \<Longrightarrow>
   startDate (Some c) (levelPoints levels) = Inr (Some (max c (unlocked_at (hd levels))))"
  by (cases levels) (simp_all add: startDate_def levelPoints_Cons max.commute)

lemma startDate_None:
  "levels \<noteq> [] \<Longrightarrow> startDate None (levelPoints levels) = Inr (Some (unlocked_at (hd levels)))"
  by (cases levels) (simp_all add: startDate_def levelPoints_Cons)

lemma applyStart_Some:
  "levels \<noteq> [] \<Longrightarrow>
   applyStart (Some c) (levelPoints levels) =
     Inr (filter (\<lambda>p. max c (unlocked_at (hd levels)) \<le> x p) (levelPoints levels))"
  by (simp add: applyStart_def startDate_Some date_ge_def)

lemma applyStart_None:
  "levels \<noteq> [] \<Longrightarrow>
   applyStart None (levelPoints levels) =
     Inr (filter (\<lambda>p. unlocked_at (hd levels) \<le> x p) (levelPoints levels))"
  by (simp add: applyStart_def startDate_None date_ge_def)

text \<open>
  Claim C6. For a non-empty list of level progressions and a supplied cutoff \<open>c\<close>, the
  effective start is the later of \<open>c\<close> and the first unlock time, and the builder keeps exactly
  the unlock points at or after it (the built history is these points, followed by the
  completion point if there is one). A cutoff at or after the first unlock keeps exactly the
  points at or after the cutoff. A cutoff at or before the first unlock has no effect: the
  result is that of no cutoff, which is the whole history when no progression was unlocked
  before the first one.
\<close>

theorem applyStart_cutoff:
  assumes "levels \<noteq> []"
  shows "startDate (Some c) (levelPoints levels) = Inr (Some (max c (unlocked_at (hd levels))))
    \<and> applyStart (Some c) (levelPoints levels) =
        Inr (filter (\<lambda>p. max c (unlocked_at (hd levels)) \<le> x p) (levelPoints levels))
    \<and> buildHistory levels (Some c) =
        Inr (pushPassed levels
              (filter (\<lambda>p. max c (unlocked_at (hd levels)) \<le> x p) (levelPoints levels)))
    \<and> (unlocked_at (hd levels) \<le> c \<longrightarrow>
         applyStart (Some c) (levelPoints levels) =
           Inr (filter (\<lambda>p. c \<le> x p) (levelPoints levels)))
    \<and> (c \<le> unlocked_at (hd levels) \<longrightarrow>
         applyStart (Some c) (levelPoints levels) = applyStart None (levelPoints levels))
    \<and> (c \<le> unlocked_at (hd levels) \<and> (\<forall>r \<in> set levels. unlocked_at (hd levels) \<le> unlocked_at r) \<longrightarrow>
         applyStart (Some c) (levelPoints levels) = Inr (levelPoints levels))"
proof -
  have all: "filter (\<lambda>p. unlocked_at (hd levels) \<le> x p) (levelPoints levels) = levelPoints levels"
    if "\<forall>r \<in> set levels. unlocked_at (hd levels) \<le> unlocked_at r"
    using that by (simp add: levelPoints_def filter_map o_def)
  show ?thesis
    using assms all
    by (simp add: startDate_Some applyStart_Some applyStart_None buildHistory_def max_def)
qed

text \<open>
  Three progressions of early 2021: the cutoff 1 February drops the first point, the cutoff
  1 December 2020 drops nothing.
\<close>

theorem applyStart_cutoff_witness:
  "applyStart (Some (utcDate 2021 2 1))
      (levelPoints [\<lparr>level = 1, unlocked_at = utcDate 2021 1 1, passed_at = Some (utcDate 2021 2 1)\<rparr>,
                    \<lparr>level = 2, unlocked_at = utcDate 2021 2 1, passed_at = Some (utcDate 2021 3 1)\<rparr>,
                    \<lparr>level = 3, unlocked_at = utcDate 2021 3 1, passed_at = None\<rparr>])
     = Inr [\<lparr>x = utcDate 2021 2 1, y = 1\<rparr>, \<lparr>x = utcDate 2021 3 1, y = 2\<rparr>]
   \<and> applyStart (Some (utcDate 2020 12 1))
      (levelPoints [\<lparr>level = 1, unlocked_at = utcDate 2021 1 1, passed_at = Some (utcDate 2021 2 1)\<rparr>,
                    \<lparr>level = 2, unlocked_at = utcDate 2021 2 1, passed_at = Some (utcDate 2021 3 1)\<rparr>,
                    \<lparr>level = 3, unlocked_at = utcDate 2021 3 1, passed_at = None\<rparr>])
     = Inr [\<lparr>x = utcDate 2021 1 1, y = 0\<rparr>, \<lparr>x = utcDate 2021 2 1, y = 1\<rparr>,
            \<lparr>x = utcDate 2021 3 1, y = 2\<rparr>]"
proof -
  let ?levels = "[\<lparr>level = 1, unlocked_at = utcDate 2021 1 1, passed_at = Some (utcDate 2021 2 1)\<rparr>,
                    \<lparr>level = 2, unlocked_at = utcDate 2021 2 1, passed_at = Some (utcDate 2021 3 1)\<rparr>,
                    \<lparr>level = 3, unlocked_at = utcDate 2021 3 1, passed_at = None\<rparr>]"
  have ne: "?levels \<noteq> []" by simp
  have d: "utcDate 2021 1 1 = 1609459200000" "utcDate 2021 2 1 = 1612137600000"
    "utcDate 2021 3 1 = 1614556800000" "utcDate 2020 12 1 = 1606780800000"
    by code_simp+
  have later: "unlocked_at (hd ?levels) \<le> utcDate 2021 2 1" by (simp add: d)
  have earlier: "utcDate 2020 12 1 \<le> unlocked_at (hd ?levels)
     \<and> (\<forall>r \<in> set ?levels. unlocked_at (hd ?levels) \<le> unlocked_at r)" by (simp add: d)
  from applyStart_cutoff[OF ne, of "utcDate 2021 2 1"] later
  have a: "applyStart (Some (utcDate 2021 2 1)) (levelPoints ?levels) =
           Inr (filter (\<lambda>p. utcDate 2021 2 1 \<le> x p) (levelPoints ?levels))" by blast
  from applyStart_cutoff[OF ne, of "utcDate 2020 12 1"] earlier
  have b: "applyStart (Some (utcDate 2020 12 1)) (levelPoints ?levels) = Inr (levelPoints ?levels)"
    by blast
  show ?thesis unfolding a b by (simp add: levelPoints_def d)
qed

lemma pushPassed_Some:
  "passed_at (List.last levels) = Some t \<Longrightarrow>
   pushPassed levels history = history @ [\<lparr>x = t, y = level (List.last levels)\<rparr>]"
  by (simp add: pushPassed_def)

text \<open>
  Claim C10. When the last progression has been passed, the completion point (at the passing
  time and at the level itself, not the level minus one) is appended after the cutoff filter:
  it ends the built history whatever the cutoff is, and it is the whole history when the
  cutoff lies after every unlock time.
\<close>

theorem buildHistory_completion:
  assumes "levels \<noteq> []" and "passed_at (List.last levels) = Some t"
  shows "(\<exists>kept. applyStart cutoff (levelPoints levels) = Inr kept
            \<and> buildHistory levels cutoff = Inr (kept @ [\<lparr>x = t, y = level (List.last levels)\<rparr>]))
     \<and> ((\<forall>r \<in> set levels. unlocked_at r < c) \<longrightarrow>
          buildHistory levels (Some c) = Inr [\<lparr>x = t, y = level (List.last levels)\<rparr>])"
proof -
  have ex: "\<exists>kept. applyStart cutoff (levelPoints levels) = Inr kept" for cutoff
    using assms(1) by (cases cutoff) (simp_all add: applyStart_Some applyStart_None)
  have drop: "filter (\<lambda>p. max c (unlocked_at (hd levels)) \<le> x p) (levelPoints levels) = []"
    if "\<forall>r \<in> set levels. unlocked_at r < c"
    using that by (auto simp: levelPoints_def filter_empty_conv)
  have one: "buildHistory levels cutoff = Inr (kept @ [\<lparr>x = t, y = level (List.last levels)\<rparr>])"
    if "applyStart cutoff (levelPoints levels) = Inr kept" for cutoff kept
    using that assms(2) by (simp add: buildHistory_def pushPassed_Some)
  from ex one have first: "\<exists>kept. applyStart cutoff (levelPoints levels) = Inr kept
            \<and> buildHistory levels cutoff = Inr (kept @ [\<lparr>x = t, y = level (List.last levels)\<rparr>])"
    by blast
  have second: "buildHistory levels (Some c) = Inr [\<lparr>x = t, y = level (List.last levels)\<rparr>]"
    if "\<forall>r \<in> set levels. unlocked_at r < c"
    using one[of "Some c" "[]"] drop[OF that] assms(1) by (simp add: applyStart_Some)
  from first second show ?thesis by blast
qed

text \<open>
  Levels 59 and 60, both passed: the cutoff 1 May 2021 lies after every unlock and after the
  completion time of 1 March, and the history is the completion point alone.
\<close>

theorem buildHistory_completion_witness:
  "buildHistory [\<lparr>level = 59, unlocked_at = utcDate 2021 1 1, passed_at = Some (utcDate 2021 2 1)\<rparr>,
                 \<lparr>level = 60, unlocked_at = utcDate 2021 2 1, passed_at = Some (utcDate 2021 3 1)\<rparr>]
                (Some (utcDate 2021 5 1))
     = Inr [\<lparr>x = utcDate 2021 3 1, y = 60\<rparr>]
   \<and> buildHistory [\<lparr>level = 59, unlocked_at = utcDate 2021 1 1, passed_at = Some (utcDate 2021 2 1)\<rparr>,
                 \<lparr>level = 60, unlocked_at = utcDate 2021 2 1, passed_at = Some (utcDate 2021 3 1)\<rparr>]
                None
     = Inr [\<lparr>x = utcDate 2021 1 1, y = 58\<rparr>, \<lparr>x = utcDate 2021 2 1, y = 59\<rparr>,
            \<lparr>x = utcDate 2021 3 1, y = 60\<rparr>]"
proof -
  let ?levels = "[\<lparr>level = 59, unlocked_at = utcDate 2021 1 1, passed_at = Some (utcDate 2021 2 1)\<rparr>,
                 \<lparr>level = 60, unlocked_at = utcDate 2021 2 1, passed_at = Some (utcDate 2021 3 1)\<rparr>]"
  have ne: "?levels \<noteq> []" by simp
  have ps: "passed_at (List.last ?levels) = Some (utcDate 2021 3 1)" by simp
  have d: "utcDate 2021 1 1 = 1609459200000" "utcDate 2021 2 1 = 1612137600000"
    "utcDate 2021 5 1 = 1619827200000"
    by code_simp+
  have before: "\<forall>r \<in> set ?levels. unlocked_at r < utcDate 2021 5 1" by (simp add: d)
  have none: "applyStart None (levelPoints ?levels)
     = Inr [\<lparr>x = utcDate 2021 1 1, y = 58\<rparr>, \<lparr>x = utcDate 2021 2 1, y = 59\<rparr>]"
    by code_simp
  from buildHistory_completion[OF ne ps, of None "utcDate 2021 5 1"] before none
  show ?thesis by simp
qed

section \<open>The forecaster\<close>

lemma fold_unchanged: "(\<And>i a. i \<in> set js \<Longrightarrow> f i a = a) \<Longrightarrow> fold f js a = a"
  by (induction js arbitrary: a) simp_all

lemma averages_skipped:
  assumes "\<forall>i. Suc i < length history \<longrightarrow>
             SKIP_MONTHS \<le> differenceInMonths (x (history ! Suc i)) (x (history ! i))"
  shows "averages history = [None, None]"
  unfolding averages_def
proof (rule fold_unchanged)
  fix i a
  assume "i \<in> set [1..<length history]"
  then have "Suc (i - 1) < length history" and "Suc (i - 1) = i" by auto
  with assms have "SKIP_MONTHS \<le> differenceInMonths (x (history ! i)) (x (history ! (i - 1)))"
    by metis
  then show "pairStep (history ! (i - 1)) (history ! i) a = a"
    by (simp add: pairStep_def Let_def)
qed

lemma forecastLine_None:
  "forecastLine lst None = [\<lparr>x = x lst, y = y lst\<rparr>, \<lparr>x = x lst, y = MAX_LEVEL\<rparr>]"
  by (simp add: forecastLine_def js_num_def addHours_def trunc_rat_def)

text \<open>
  Claim C2, as amended. When every consecutive pair of a history is skipped (at least
  \<open>SKIP_MONTHS\<close> whole months apart), both averages remain \<open>null\<close>, and the forecaster still
  returns two forecast lines: \<open>null * levelsToDo\<close> is 0, so each line ends at the timestamp
  of the last point itself, at level 60. No result stands for an undefined forecast.
\<close>

theorem computeForecasts_all_skipped:
  assumes "history \<noteq> []"
    and "\<forall>i. Suc i < length history \<longrightarrow>
             SKIP_MONTHS \<le> differenceInMonths (x (history ! Suc i)) (x (history ! i))"
  shows "averages history = [None, None]
     \<and> computeForecasts history =
         Inr [[\<lparr>x = x (List.last history), y = y (List.last history)\<rparr>,
               \<lparr>x = x (List.last history), y = MAX_LEVEL\<rparr>],
              [\<lparr>x = x (List.last history), y = y (List.last history)\<rparr>,
               \<lparr>x = x (List.last history), y = MAX_LEVEL\<rparr>]]"
  using assms(1) averages_skipped[OF assms(2)]
  by (simp add: computeForecasts_def forecastLine_None)

text \<open>Three points four months apart: both pairs are skipped.\<close>

theorem computeForecasts_all_skipped_witness:
  "SKIP_MONTHS \<le> differenceInMonths (utcDate 2021 5 1) (utcDate 2021 1 1)
   \<and> SKIP_MONTHS \<le> differenceInMonths (utcDate 2021 9 1) (utcDate 2021 5 1)
   \<and> averages [\<lparr>x = utcDate 2021 1 1, y = 0\<rparr>, \<lparr>x = utcDate 2021 5 1, y = 1\<rparr>,
                \<lparr>x = utcDate 2021 9 1, y = 2\<rparr>] = [None, None]
   \<and> computeForecasts [\<lparr>x = utcDate 2021 1 1, y = 0\<rparr>, \<lparr>x = utcDate 2021 5 1, y = 1\<rparr>,
                \<lparr>x = utcDate 2021 9 1, y = 2\<rparr>]
       = Inr [[\<lparr>x = utcDate 2021 9 1, y = 2\<rparr>, \<lparr>x = utcDate 2021 9 1, y = 60\<rparr>],
              [\<lparr>x = utcDate 2021 9 1, y = 2\<rparr>, \<lparr>x = utcDate 2021 9 1, y = 60\<rparr>]]"
proof -
  let ?h = "[\<lparr>x = utcDate 2021 1 1, y = 0::int\<rparr>, \<lparr>x = utcDate 2021 5 1, y = 1\<rparr>,
             \<lparr>x = utcDate 2021 9 1, y = 2\<rparr>]"
  have m1: "SKIP_MONTHS \<le> differenceInMonths (utcDate 2021 5 1) (utcDate 2021 1 1)" by code_simp
  have m2: "SKIP_MONTHS \<le> differenceInMonths (utcDate 2021 9 1) (utcDate 2021 5 1)" by code_simp
  have ne: "?h \<noteq> []" by simp
  have hyp: "\<forall>i. Suc i < length ?h \<longrightarrow>
             SKIP_MONTHS \<le> differenceInMonths (x (?h ! Suc i)) (x (?h ! i))"
  proof (intro allI impI)
    fix i assume "Suc i < length ?h"
    then have "i = 0 \<or> i = 1" by auto
    then show "SKIP_MONTHS \<le> differenceInMonths (x (?h ! Suc i)) (x (?h ! i))"
      using m1 m2 by auto
  qed
  from computeForecasts_all_skipped[OF ne hyp] m1 m2 show ?thesis
    by (simp add: MAX_LEVEL_def)
qed

text \<open>
  Counterexample to C2 as stated. The two points are four whole months apart, the only pair
  is skipped, and both forecast lines run from the last point to level 60 at the last point's
  own timestamp.
\<close>

theorem computeForecasts_skipped_counterexample:
  "differenceInMonths (utcDate 2021 5 1) (utcDate 2021 1 1) = 4
   \<and> averages [\<lparr>x = utcDate 2021 1 1, y = 0\<rparr>, \<lparr>x = utcDate 2021 5 1, y = 1\<rparr>] = [None, None]
   \<and> computeForecasts [\<lparr>x = utcDate 2021 1 1, y = 0\<rparr>, \<lparr>x = utcDate 2021 5 1, y = 1\<rparr>]
       = Inr [[\<lparr>x = utcDate 2021 5 1, y = 1\<rparr>, \<lparr>x = utcDate 2021 5 1, y = 60\<rparr>],
              [\<lparr>x = utcDate 2021 5 1, y = 1\<rparr>, \<lparr>x = utcDate 2021 5 1, y = 60\<rparr>]]"
  by code_simp

section \<open>Histories of fewer than two points\<close>

lemma averages_single: "averages [p] = [None, None]"
  by (simp add: averages_def)

lemma speed_single: "speed [e] = []"
  by (simp add: speed_def speedAt_def flatMap_def)

lemma insertGaps_single: "insertGaps [p] = [Pt p]"
  by (simp add: insertGaps_def flatMap_def)

text \<open>
  Claim C9, as amended. With no progression at all, and with a built history that is empty
  (every point dropped by the cutoff and no completion point), \<open>processData\<close> throws a
  TypeError and nothing reaches the chart. A history of a single point is not rejected: the
  forecaster runs with both averages uninitialized and the chart receives that point, two
  forecast lines and an empty speed series.
\<close>

theorem processData_few_points:
  "(levels = [] \<longrightarrow> processData levels cutoff = Inl TypeError)
   \<and> (buildHistory levels cutoff = Inr [] \<longrightarrow> processData levels cutoff = Inl TypeError)
   \<and> (buildHistory levels cutoff = Inr [p] \<longrightarrow>
        processData levels cutoff =
          Inr \<lparr>chartHistory = [Pt p],
               chartForecasts = [[p, \<lparr>x = x p, y = MAX_LEVEL\<rparr>], [p, \<lparr>x = x p, y = MAX_LEVEL\<rparr>]],
               chartSpeed = []\<rparr>)"
proof -
  have a: "processData [] cutoff = Inl TypeError"
    by (simp add: processData_def buildHistory_def applyStart_def startDate_def levelPoints_def)
  have b: "processData levels cutoff = Inl TypeError" if "buildHistory levels cutoff = Inr []"
    using that by (simp add: processData_def computeForecasts_def)
  have c: "processData levels cutoff =
          Inr \<lparr>chartHistory = [Pt p],
               chartForecasts = [[p, \<lparr>x = x p, y = MAX_LEVEL\<rparr>], [p, \<lparr>x = x p, y = MAX_LEVEL\<rparr>]],
               chartSpeed = []\<rparr>" if "buildHistory levels cutoff = Inr [p]"
    using that
    by (simp add: processData_def computeForecasts_def averages_single forecastLine_None
        insertGaps_single speed_single)
  from a b c show ?thesis by blast
qed

text \<open>The three cases of C9 on concrete inputs.\<close>

theorem processData_few_points_witness:
  "processData [] None = Inl TypeError
   \<and> buildHistory [\<lparr>level = 1, unlocked_at = utcDate 2021 1 1, passed_at = None\<rparr>]
        (Some (utcDate 2021 5 1)) = Inr []
   \<and> processData [\<lparr>level = 1, unlocked_at = utcDate 2021 1 1, passed_at = None\<rparr>]
        (Some (utcDate 2021 5 1)) = Inl TypeError
   \<and> buildHistory [\<lparr>level = 1, unlocked_at = utcDate 2021 1 1, passed_at = None\<rparr>] None
        = Inr [\<lparr>x = utcDate 2021 1 1, y = 0\<rparr>]
   \<and> processData [\<lparr>level = 1, unlocked_at = utcDate 2021 1 1, passed_at = None\<rparr>] None
        = Inr \<lparr>chartHistory = [Pt \<lparr>x = utcDate 2021 1 1, y = 0\<rparr>],
               chartForecasts = [[\<lparr>x = utcDate 2021 1 1, y = 0\<rparr>, \<lparr>x = utcDate 2021 1 1, y = 60\<rparr>],
                                 [\<lparr>x = utcDate 2021 1 1, y = 0\<rparr>, \<lparr>x = utcDate 2021 1 1, y = 60\<rparr>]],
               chartSpeed = []\<rparr>"
proof -
  let ?r = "\<lparr>level = 1, unlocked_at = utcDate 2021 1 1, passed_at = None\<rparr>"
  have b0: "buildHistory [?r] (Some (utcDate 2021 5 1)) = Inr []" by code_simp
  have b1: "buildHistory [?r] None = Inr [\<lparr>x = utcDate 2021 1 1, y = 0\<rparr>]" by code_simp
  from processData_few_points[of "[]" None]
  have t0: "processData [] None = Inl TypeError" by simp
  from processData_few_points[of "[?r]" "Some (utcDate 2021 5 1)"] b0
  have t1: "processData [?r] (Some (utcDate 2021 5 1)) = Inl TypeError" by blast
  from processData_few_points[of "[?r]" None "\<lparr>x = utcDate 2021 1 1, y = 0\<rparr>"] b1
  have t2: "processData [?r] None
        = Inr \<lparr>chartHistory = [Pt \<lparr>x = utcDate 2021 1 1, y = 0\<rparr>],
               chartForecasts = [[\<lparr>x = utcDate 2021 1 1, y = 0\<rparr>, \<lparr>x = utcDate 2021 1 1, y = 60\<rparr>],
                                 [\<lparr>x = utcDate 2021 1 1, y = 0\<rparr>, \<lparr>x = utcDate 2021 1 1, y = 60\<rparr>]],
               chartSpeed = []\<rparr>" by (simp add: MAX_LEVEL_def)
  from t0 t1 t2 b0 b1 show ?thesis by simp
qed

text \<open>
  Counterexample to C9 as stated. A single progression, not yet passed, gives a history of one
  point; \<open>processData\<close> returns chart data with two forecast lines and raises no error.
\<close>

theorem processData_single_point_counterexample:
  "processData [\<lparr>level = 7, unlocked_at = utcDate 2021 3 1, passed_at = None\<rparr>] None
        = Inr \<lparr>chartHistory = [Pt \<lparr>x = utcDate 2021 3 1, y = 6\<rparr>],
               chartForecasts = [[\<lparr>x = utcDate 2021 3 1, y = 6\<rparr>, \<lparr>x = utcDate 2021 3 1, y = 60\<rparr>],
                                 [\<lparr>x = utcDate 2021 3 1, y = 6\<rparr>, \<lparr>x = utcDate 2021 3 1, y = 60\<rparr>]],
               chartSpeed = []\<rparr>"
  by code_simp

section \<open>The smoothing scan of the forecaster\<close>

lemma length_updateAverages: "length (updateAverages hours avgHours) = length avgHours"
  by (simp add: updateAverages_def)

lemma length_pairStep: "length (pairStep p c avgHours) = length avgHours"
  by (simp add: pairStep_def Let_def length_updateAverages)

lemma length_fold_pairStep:
  "length (fold (\<lambda>i avgHours. pairStep (f i) (g i) avgHours) js a) = length a"
  by (induction js arbitrary: a) (simp_all add: length_pairStep)

lemma length_averages: "length (averages history) = 2"
  by (simp add: averages_def length_fold_pairStep)

lemma updateAverages_pair:
  "updateAverages hours [a, b] = [smooth hours 0 a, smooth hours 1 b]"
  by (simp add: updateAverages_def upt_conv_Cons del: upt_Suc)

lemma averages_take_step:
  assumes "Suc k < length history"
  shows "averages (take (Suc (Suc k)) history) =
         pairStep (history ! k) (history ! Suc k) (averages (take (Suc k) history))"
proof -
  let ?t2 = "take (Suc (Suc k)) history" and ?t1 = "take (Suc k) history"
  have l2: "length ?t2 = Suc (Suc k)" and l1: "length ?t1 = Suc k"
    using assms by simp_all
  have up: "[1..<Suc (Suc k)] = [1..<Suc k] @ [Suc k]" by simp
  have same: "fold (\<lambda>i avgHours. pairStep (?t2 ! (i - 1)) (?t2 ! i) avgHours) [1..<Suc k] a =
              fold (\<lambda>i avgHours. pairStep (?t1 ! (i - 1)) (?t1 ! i) avgHours) [1..<Suc k] a" for a
    by (rule fold_cong) auto
  show ?thesis
    unfolding averages_def l2 l1 up fold_append o_apply same
    using assms by simp
qed

text \<open>
  What the scan does at the pair \<open>(history[k], history[k + 1])\<close>: a pair at least
  \<open>SKIP_MONTHS\<close> whole months apart leaves both averages as they are; any other pair sets an
  average that is \<open>null\<close> or 0 to the observed hours, and smooths a nonzero average with its
  alpha.
\<close>

lemma averages_scan:
  assumes "Suc k < length history"
  shows "(SKIP_MONTHS \<le> differenceInMonths (x (history ! Suc k)) (x (history ! k)) \<longrightarrow>
            averages (take (Suc (Suc k)) history) = averages (take (Suc k) history))
     \<and> (differenceInMonths (x (history ! Suc k)) (x (history ! k)) < SKIP_MONTHS \<longrightarrow>
          (\<forall>j < 2. averages (take (Suc (Suc k)) history) ! j =
             (case averages (take (Suc k) history) ! j of
                None \<Rightarrow> Some (of_int (differenceInHours (x (history ! Suc k)) (x (history ! k))))
              | Some v \<Rightarrow>
                  if v = 0
                  then Some (of_int (differenceInHours (x (history ! Suc k)) (x (history ! k))))
                  else Some (ALPHAS ! j * of_int (differenceInHours (x (history ! Suc k)) (x (history ! k)))
                             + (1 - ALPHAS ! j) * v))))"
proof -
  let ?hours = "rat_of_int (differenceInHours (x (history ! Suc k)) (x (history ! k)))"
  obtain a b where ab: "averages (take (Suc k) history) = [a, b]"
    using length_averages[of "take (Suc k) history"]
    by (metis One_nat_def Suc_1 length_0_conv length_Suc_conv)
  have skip: "averages (take (Suc (Suc k)) history) = averages (take (Suc k) history)"
    if "SKIP_MONTHS \<le> differenceInMonths (x (history ! Suc k)) (x (history ! k))"
    using that unfolding averages_take_step[OF assms] by (simp add: pairStep_def Let_def)
  have upd: "averages (take (Suc (Suc k)) history) = [smooth ?hours 0 a, smooth ?hours 1 b]"
    if "differenceInMonths (x (history ! Suc k)) (x (history ! k)) < SKIP_MONTHS"
    using that unfolding averages_take_step[OF assms] ab
    by (simp add: pairStep_def Let_def updateAverages_pair)
  have each: "\<forall>j < 2. [smooth ?hours 0 a, smooth ?hours 1 b] ! j =
             (case [a, b] ! j of
                None \<Rightarrow> Some ?hours
              | Some v \<Rightarrow> if v = 0 then Some ?hours
                          else Some (ALPHAS ! j * ?hours + (1 - ALPHAS ! j) * v))"
    by (simp add: less_2_cases_iff smooth_def Let_def split: option.splits)
  from skip upd each show ?thesis unfolding ab by simp
qed

text \<open>
  Claim C1 says that an average that is already initialized is updated to
  \<open>alpha * observed + (1 - alpha) * old\<close>. The test \<open>!old\<close> of the source also holds for an
  average that was initialized to 0. The progressions below are level 1, level 2 unlocked on
  1 January 2021, a reset to level 1 half an hour later and level 2 again after a week; with
  the start date 1 January 2021 the built history begins at the first unlock of level 2.
  After its first pair both averages are 0 (initialized), and the second pair, 168 hours long
  and not skipped, sets them to 168 where the smoothing formula gives 84 and 42.
\<close>

theorem averages_zero_reinitialized:
  "buildHistory [\<lparr>level = 1, unlocked_at = utcDate 2020 12 25, passed_at = Some (utcDate 2021 1 1)\<rparr>,
                 \<lparr>level = 2, unlocked_at = utcDate 2021 1 1, passed_at = None\<rparr>,
                 \<lparr>level = 1, unlocked_at = utcDate 2021 1 1 + 1800000,
                  passed_at = Some (utcDate 2021 1 8 + 1800000)\<rparr>,
                 \<lparr>level = 2, unlocked_at = utcDate 2021 1 8 + 1800000, passed_at = None\<rparr>]
                (Some (utcDate 2021 1 1))
     = Inr [\<lparr>x = utcDate 2021 1 1, y = 1\<rparr>, \<lparr>x = utcDate 2021 1 1 + 1800000, y = 0\<rparr>,
            \<lparr>x = utcDate 2021 1 8 + 1800000, y = 1\<rparr>]
   \<and> differenceInHours (utcDate 2021 1 1 + 1800000) (utcDate 2021 1 1) = 0
   \<and> differenceInMonths (utcDate 2021 1 1 + 1800000) (utcDate 2021 1 1) < SKIP_MONTHS
   \<and> averages [\<lparr>x = utcDate 2021 1 1, y = 1\<rparr>, \<lparr>x = utcDate 2021 1 1 + 1800000, y = 0\<rparr>]
       = [Some 0, Some 0]
   \<and> differenceInHours (utcDate 2021 1 8 + 1800000) (utcDate 2021 1 1 + 1800000) = 168
   \<and> differenceInMonths (utcDate 2021 1 8 + 1800000) (utcDate 2021 1 1 + 1800000) < SKIP_MONTHS
   \<and> averages [\<lparr>x = utcDate 2021 1 1, y = 1\<rparr>, \<lparr>x = utcDate 2021 1 1 + 1800000, y = 0\<rparr>,
                \<lparr>x = utcDate 2021 1 8 + 1800000, y = 1\<rparr>]
       = [Some 168, Some 168]
   \<and> ALPHAS ! 0 * 168 + (1 - ALPHAS ! 0) * 0 = 84
   \<and> ALPHAS ! 1 * 168 + (1 - ALPHAS ! 1) * 0 = 42"
  by code_simp

end
